theory Spec2Isabelle
  imports Complex_Main "HOL-Library.Multiset"
begin

section \<open>Data model\<close>

text \<open>
  The entities of \<^verbatim>\<open>src/entities\<close>. A \<^verbatim>\<open>Date\<close> is its millisecond count, a
  \<^verbatim>\<open>decimal\<close> column is a real number, a nullable column is an \<open>option\<close>, and a
  \<^verbatim>\<open>jsonb\<close> column is kept as its text. Field names carry a prefix per entity, since
  several entities share names (\<^verbatim>\<open>pValue\<close>, \<^verbatim>\<open>eventType\<close>, ...).
\<close>

type_synonym date = int
type_synonym json = string

datatype HypothesisStatus = PENDING | RUNNING | COMPLETED | FAILED

datatype TestType = CORRELATION | GRANGER_CAUSALITY | EVENT_STUDY | PERMUTATION

record Hypothesis =
  h_id :: string
  h_hypothesis :: string
  h_nullHypothesis :: string
  h_eventType :: string
  h_marketAsset :: string
  h_testType :: TestType
  h_lookbackDays :: int
  h_status :: HypothesisStatus
  h_pValue :: "real option"
  h_hitRate :: "real option"
  h_edge :: "real option"
  h_sampleSize :: "int option"
  h_testResults :: "json option"
  h_errorMessage :: "string option"
  h_aiGenerated :: bool
  h_aiConfidence :: "real option"
  h_createdAt :: date
  h_testedAt :: date

text \<open>The payloads of \<^verbatim>\<open>common/events\<close> that the modelled services emit.\<close>

datatype TestedStatus = Tested_completed | Tested_failed

datatype AppEvent =
    ANALYSIS_REQUESTED string string string TestType
  | HYPOTHESIS_TESTED string TestedStatus "real option" "real option"
  | RELATIONSHIP_DISCOVERED string string string real real

section \<open>HypothesesService\<close>

text \<open>
  The service owns a repository (the rows of the table, in table order) and an event
  emitter (the events emitted so far, oldest first).
\<close>

record HypothesesService =
  hypothesesRepository :: "Hypothesis list"
  eventEmitter :: "AppEvent list"

definition emit :: "AppEvent \<Rightarrow> HypothesesService \<Rightarrow> HypothesesService" where
  "emit ev s = s\<lparr>eventEmitter := eventEmitter s @ [ev]\<rparr>"

text \<open>
  \<^verbatim>\<open>repository.update(id, partial)\<close>: every row with this id gets the partial
  entity's columns; a missing id updates nothing and raises nothing. \<^verbatim>\<open>testedAt\<close> is the
  entity's \<^verbatim>\<open>@UpdateDateColumn\<close>, so every update stamps it with the current time.
\<close>

definition repo_update ::
  "string \<Rightarrow> (Hypothesis \<Rightarrow> Hypothesis) \<Rightarrow> date \<Rightarrow> Hypothesis list \<Rightarrow> Hypothesis list" where
  "repo_update i f now rows =
     map (\<lambda>h. if h_id h = i then (f h)\<lparr>h_testedAt := now\<rparr> else h) rows"

definition findOne :: "string \<Rightarrow> HypothesesService \<Rightarrow> Hypothesis option" where
  "findOne i s = find (\<lambda>h. h_id h = i) (hypothesesRepository s)"

text \<open>\<^verbatim>\<open>find({ where: { status: PENDING }, order: { createdAt: 'ASC' } })\<close>\<close>

definition findPending :: "HypothesesService \<Rightarrow> Hypothesis list" where
  "findPending s =
     sort_key h_createdAt (filter (\<lambda>h. h_status h = PENDING) (hypothesesRepository s))"

definition queueForTesting ::
  "string \<Rightarrow> date \<Rightarrow> HypothesesService \<Rightarrow> Hypothesis option \<times> HypothesesService" where
  "queueForTesting i now s =
     (case findOne i s of
        None \<Rightarrow> (None, s)
      | Some hyp \<Rightarrow>
          (let s1 = s\<lparr>hypothesesRepository :=
                       repo_update i (\<lambda>h. h\<lparr>h_status := RUNNING\<rparr>) now (hypothesesRepository s)\<rparr>;
               s2 = emit (ANALYSIS_REQUESTED i (h_eventType hyp) (h_marketAsset hyp) (h_testType hyp)) s1
           in (findOne i s2, s2)))"

record Results =
  res_pValue :: real
  res_hitRate :: real
  res_edge :: real
  res_sampleSize :: int
  res_testResults :: "json option"

text \<open>
  \<^verbatim>\<open>updateResults\<close> writes the result columns of the hypothesis row itself. An absent
  \<^verbatim>\<open>testResults\<close> is an undefined property of the partial entity, which the update skips.
\<close>

definition updateResults ::
  "string \<Rightarrow> Results \<Rightarrow> date \<Rightarrow> HypothesesService \<Rightarrow> Hypothesis option \<times> HypothesesService" where
  "updateResults i results now s =
     (let s1 = s\<lparr>hypothesesRepository :=
                  repo_update i
                    (\<lambda>h. h\<lparr>h_status := COMPLETED,
                            h_pValue := Some (res_pValue results),
                            h_hitRate := Some (res_hitRate results),
                            h_edge := Some (res_edge results),
                            h_sampleSize := Some (res_sampleSize results),
                            h_testResults :=
                              (case res_testResults results of
                                 None \<Rightarrow> h_testResults h
                               | Some t \<Rightarrow> Some t)\<rparr>)
                    now (hypothesesRepository s)\<rparr>;
          s2 = emit (HYPOTHESIS_TESTED i Tested_completed
                       (Some (res_pValue results)) (Some (res_hitRate results))) s1
      in (findOne i s2, s2))"

definition markFailed ::
  "string \<Rightarrow> string \<Rightarrow> date \<Rightarrow> HypothesesService \<Rightarrow> Hypothesis option \<times> HypothesesService" where
  "markFailed i errorMessage now s =
     (let s1 = s\<lparr>hypothesesRepository :=
                  repo_update i
                    (\<lambda>h. h\<lparr>h_status := FAILED, h_errorMessage := Some errorMessage\<rparr>)
                    now (hypothesesRepository s)\<rparr>;
          s2 = emit (HYPOTHESIS_TESTED i Tested_failed None None) s1
      in (findOne i s2, s2))"

text \<open>A hypothesis row and a service state used for concrete evaluations.\<close>

definition hyp0 :: Hypothesis where
  "hyp0 = \<lparr>h_id = ''h1'', h_hypothesis = ''VIX spikes predict volatility'',
            h_nullHypothesis = ''no effect'', h_eventType = ''vix_spike'',
            h_marketAsset = ''SPY'', h_testType = GRANGER_CAUSALITY, h_lookbackDays = 365,
            h_status = PENDING, h_pValue = None, h_hitRate = None, h_edge = None,
            h_sampleSize = None, h_testResults = None, h_errorMessage = None,
            h_aiGenerated = False, h_aiConfidence = None, h_createdAt = 10, h_testedAt = 10\<rparr>"

definition svc0 :: HypothesesService where
  "svc0 = \<lparr>hypothesesRepository = [hyp0], eventEmitter = []\<rparr>"

definition hypLate :: Hypothesis where
  "hypLate = hyp0\<lparr>h_id := ''h2'', h_createdAt := 30\<rparr>"

definition hypDone :: Hypothesis where
  "hypDone = hyp0\<lparr>h_id := ''h3'', h_status := COMPLETED, h_pValue := Some (1/50), h_createdAt := 5\<rparr>"

definition svc1 :: HypothesesService where
  "svc1 = \<lparr>hypothesesRepository = [hypLate, hypDone, hyp0], eventEmitter = []\<rparr>"

definition firstResults :: Results where
  "firstResults = \<lparr>res_pValue = 1/100, res_hitRate = 7/10, res_edge = 120, res_sampleSize = 40,
                    res_testResults = Some ''{lag: 2}''\<rparr>"

definition secondResults :: Results where
  "secondResults = \<lparr>res_pValue = 1/2, res_hitRate = 1/2, res_edge = 3, res_sampleSize = 55,
                     res_testResults = None\<rparr>"

text \<open>\<^verbatim>\<open>getStats\<close>: the counts over all rows; \<^verbatim>\<open>significant\<close> compares the stored p-value with 0.05.\<close>

record Stats =
  st_total :: nat
  st_pending :: nat
  st_running :: nat
  st_completed :: nat
  st_failed :: nat
  st_significant :: nat

definition getStats :: "HypothesesService \<Rightarrow> Stats" where
  "getStats s =
     (let all = hypothesesRepository s in
      \<lparr>st_total = length all,
       st_pending = length (filter (\<lambda>h. h_status h = PENDING) all),
       st_running = length (filter (\<lambda>h. h_status h = RUNNING) all),
       st_completed = length (filter (\<lambda>h. h_status h = COMPLETED) all),
       st_failed = length (filter (\<lambda>h. h_status h = FAILED) all),
       st_significant =
         length (filter (\<lambda>h. h_status h = COMPLETED \<and>
                     (case h_pValue h of None \<Rightarrow> False | Some p \<Rightarrow> p < 0.05)) all)\<rparr>)"

section \<open>RelationshipsService\<close>

record Relationship =
  r_id :: string
  r_eventType :: string
  r_marketAsset :: string
  r_hitRate :: real
  r_edge :: real
  r_pValue :: real
  r_sampleSize :: int
  r_description :: "string option"
  r_metadata :: "json option"
  r_isSignificant :: bool
  r_discoveredAt :: date
  r_validatedAt :: date

text \<open>
  \<^verbatim>\<open>Partial<Relationship>\<close>: every column the caller may give; the generated columns
  (the id and the two dates) are the store's.
\<close>

record PartialRelationship =
  p_eventType :: "string option"
  p_marketAsset :: "string option"
  p_hitRate :: "real option"
  p_edge :: "real option"
  p_pValue :: "real option"
  p_sampleSize :: "int option"
  p_description :: "string option"
  p_metadata :: "json option"
  p_isSignificant :: "bool option"

record RelationshipsService =
  relationshipsRepository :: "Relationship list"
  relEmitter :: "AppEvent list"

datatype db_error = QueryFailedError

text \<open>
  \<^verbatim>\<open>RelationshipsService.create\<close>: \<^verbatim>\<open>repository.create(data)\<close> then \<^verbatim>\<open>save\<close>, then the
  discovery event. The insert fails when a column that is neither nullable nor defaulted is
  missing; \<^verbatim>\<open>isSignificant\<close> defaults to true. The fresh id and the clock are parameters.
\<close>

definition create ::
  "PartialRelationship \<Rightarrow> string \<Rightarrow> date \<Rightarrow> RelationshipsService
     \<Rightarrow> (db_error + Relationship) \<times> RelationshipsService" where
  "create data newId now s =
     (case (p_eventType data, p_marketAsset data, p_hitRate data, p_edge data,
            p_pValue data, p_sampleSize data) of
        (Some et, Some ma, Some hr, Some ed, Some pv, Some n) \<Rightarrow>
          (let saved = \<lparr>r_id = newId, r_eventType = et, r_marketAsset = ma, r_hitRate = hr,
                         r_edge = ed, r_pValue = pv, r_sampleSize = n,
                         r_description = p_description data, r_metadata = p_metadata data,
                         r_isSignificant =
                           (case p_isSignificant data of None \<Rightarrow> True | Some b \<Rightarrow> b),
                         r_discoveredAt = now, r_validatedAt = now\<rparr>
           in (Inr saved,
               s\<lparr>relationshipsRepository := relationshipsRepository s @ [saved],
                  relEmitter := relEmitter s @ [RELATIONSHIP_DISCOVERED newId et ma pv hr]\<rparr>))
      | _ \<Rightarrow> (Inl QueryFailedError, s))"

text \<open>\<^verbatim>\<open>find({ where: onlySignificant ? { isSignificant: true } : {}, order: { pValue: 'ASC' } })\<close>\<close>

definition findAll :: "bool \<Rightarrow> RelationshipsService \<Rightarrow> Relationship list" where
  "findAll onlySignificant s =
     sort_key r_pValue
       (filter (\<lambda>r. if onlySignificant then r_isSignificant r else True)
          (relationshipsRepository s))"

text \<open>An empty service, and a finding that is flagged as not significant.\<close>

definition relSvc0 :: RelationshipsService where
  "relSvc0 = \<lparr>relationshipsRepository = [], relEmitter = []\<rparr>"

definition weakFinding :: PartialRelationship where
  "weakFinding = \<lparr>p_eventType = Some ''vix_spike'', p_marketAsset = Some ''SPY'',
      p_hitRate = Some (2/5), p_edge = Some 3, p_pValue = Some (9/10), p_sampleSize = Some 12,
      p_description = None, p_metadata = None, p_isSignificant = Some False\<rparr>"

section \<open>BaseIngestionService\<close>











section \<open>MarketDataService\<close>

record MarketData =
  md_id :: string
  md_timestamp :: date
  md_asset :: string
  md_price :: real
  md_open :: "real option"
  md_high :: "real option"
  md_low :: "real option"
  md_close :: "real option"
  md_volume :: "real option"
  md_metadata :: "json option"

text \<open>The date filter of \<^verbatim>\<open>findByAsset\<close>, by which of the two bounds are given.\<close>

fun inDateRange :: "date option \<Rightarrow> date option \<Rightarrow> date \<Rightarrow> bool" where
  "inDateRange (Some startDate) (Some endDate) t = (startDate \<le> t \<and> t \<le> endDate)"
| "inDateRange (Some startDate) None t = (startDate \<le> t)"
| "inDateRange None (Some endDate) t = (t \<le> endDate)"
| "inDateRange None None t = True"

definition findByAsset ::
  "string \<Rightarrow> date option \<Rightarrow> date option \<Rightarrow> nat \<Rightarrow> MarketData list \<Rightarrow> MarketData list" where
  "findByAsset asset startDate endDate limit rows =
     take limit
       (sort_key md_timestamp
          (filter (\<lambda>d. md_asset d = asset \<and> inDateRange startDate endDate (md_timestamp d)) rows))"

text \<open>
  \<^verbatim>\<open>Number(a) || Number(b)\<close> on a nullable decimal \<open>a\<close>: \<^verbatim>\<open>Number(null)\<close> is 0, and 0 is
  falsy, so a null or zero \<open>a\<close> gives \<open>b\<close>.
\<close>

definition numberOr :: "real option \<Rightarrow> real \<Rightarrow> real" where
  "numberOr a b = (case a of None \<Rightarrow> b | Some x \<Rightarrow> if x = 0 then b else x)"

record PricePoint =
  pp_timestamp :: date
  pp_price :: real

record ReturnPoint =
  rp_timestamp :: date
  rp_return :: real

definition getPriceTimeSeries ::
  "string \<Rightarrow> date \<Rightarrow> date \<Rightarrow> MarketData list \<Rightarrow> PricePoint list" where
  "getPriceTimeSeries asset startDate endDate rows =
     map (\<lambda>d. \<lparr>pp_timestamp = md_timestamp d, pp_price = numberOr (md_close d) (md_price d)\<rparr>)
       (findByAsset asset (Some startDate) (Some endDate) 1000 rows)"

text \<open>The \<^verbatim>\<open>for\<close> loop of \<^verbatim>\<open>getReturns\<close> at index \<open>i\<close>, with the array built so far.\<close>

function getReturns_loop :: "PricePoint list \<Rightarrow> nat \<Rightarrow> ReturnPoint list \<Rightarrow> ReturnPoint list" where
  "getReturns_loop prices i returns =
     (if i < length prices then
        (let prevPrice = pp_price (prices ! (i - 1));
             currPrice = pp_price (prices ! i)
         in getReturns_loop prices (i + 1)
              (if prevPrice > 0
               then returns @ [\<lparr>rp_timestamp = pp_timestamp (prices ! i),
                                rp_return = (currPrice - prevPrice) / prevPrice\<rparr>]
               else returns))
      else returns)"
  by pat_completeness auto
termination
  by (relation "measure (\<lambda>(prices, i, returns). length prices - i)") auto

definition returnsOf :: "PricePoint list \<Rightarrow> ReturnPoint list" where
  "returnsOf prices = getReturns_loop prices 1 []"

definition getReturns :: "string \<Rightarrow> date \<Rightarrow> date \<Rightarrow> MarketData list \<Rightarrow> ReturnPoint list" where
  "getReturns asset startDate endDate rows =
     returnsOf (getPriceTimeSeries asset startDate endDate rows)"

text \<open>The return of one consecutive pair, and the pairs the loop visits.\<close>

definition simpleReturn :: "PricePoint \<times> PricePoint \<Rightarrow> ReturnPoint" where
  "simpleReturn pc =
     \<lparr>rp_timestamp = pp_timestamp (snd pc),
      rp_return = (pp_price (snd pc) - pp_price (fst pc)) / pp_price (fst pc)\<rparr>"

definition consecutivePairs :: "PricePoint list \<Rightarrow> (PricePoint \<times> PricePoint) list" where
  "consecutivePairs prices = zip prices (tl prices)"

text \<open>A price series with a zero price in it.\<close>

definition examplePrices :: "PricePoint list" where
  "examplePrices =
     [\<lparr>pp_timestamp = 1, pp_price = 100\<rparr>, \<lparr>pp_timestamp = 2, pp_price = 0\<rparr>,
      \<lparr>pp_timestamp = 3, pp_price = 50\<rparr>, \<lparr>pp_timestamp = 4, pp_price = 55\<rparr>]"

section \<open>EventsService\<close>

datatype EventSource = EDGAR | FRED | GDELT | ACLED | POLYMARKET | EIA

record Event =
  e_id :: string
  e_timestamp :: date
  e_source :: EventSource
  e_eventType :: string
  e_entity :: "string option"
  e_value :: "real option"
  e_metadata :: "json option"
  e_summary :: "string option"
  e_sentiment :: "real option"
  e_embedding :: "real list option"
  e_ingestedAt :: date

record SeriesPoint =
  sp_timestamp :: date
  sp_value :: real
  sp_entity :: "string option"

text \<open>
  \<^verbatim>\<open>e.value ? Number(e.value) : 1\<close> on the entity's \<^verbatim>\<open>value: number\<close> (nullable): null
  and 0 are both falsy.
\<close>

definition valueOrOne :: "real option \<Rightarrow> real" where
  "valueOrOne v = (case v of None \<Rightarrow> 1 | Some x \<Rightarrow> if x = 0 then 1 else x)"

definition getEventTimeSeries ::
  "EventSource \<Rightarrow> string \<Rightarrow> date \<Rightarrow> date \<Rightarrow> Event list \<Rightarrow> SeriesPoint list" where
  "getEventTimeSeries source eventType startDate endDate rows =
     (let events = sort_key e_timestamp
                     (filter (\<lambda>e. e_source e = source \<and> e_eventType e = eventType) rows)
      in map (\<lambda>e. \<lparr>sp_timestamp = e_timestamp e, sp_value = valueOrOne (e_value e),
                    sp_entity = e_entity e\<rparr>)
           (filter (\<lambda>e. e_timestamp e \<ge> startDate \<and> e_timestamp e \<le> endDate) events))"


section \<open>Multiple-testing corrector\<close>

text \<open>
  Modelled from the spec: the Bonferroni correction \<^verbatim>\<open>correct\<close> of the analysis worker
  (\<^verbatim>\<open>analysis/stats.py\<close>), which is not among the sources. The spec gives its contract:
  \<^verbatim>\<open>adjustedPValue = min(1, pValue * populationSize)\<close> and
  \<^verbatim>\<open>isSignificant = adjustedPValue < familyWiseAlpha\<close>, with \<^verbatim>\<open>familyWiseAlpha = 0.05\<close> by
  default. \<^verbatim>\<open>populationSize\<close> counts the hypotheses with a completed verdict.
\<close>

record Correction =
  adjustedPValue :: real
  isSignificant :: bool

definition correct :: "real \<Rightarrow> nat \<Rightarrow> real \<Rightarrow> Correction" where
  "correct pValue populationSize familyWiseAlpha =
     (let adjusted = min 1 (pValue * real populationSize)
      in \<lparr>adjustedPValue = adjusted, isSignificant = (adjusted < familyWiseAlpha)\<rparr>)"

definition correct_default :: "real \<Rightarrow> nat \<Rightarrow> Correction" where
  "correct_default pValue populationSize = correct pValue populationSize 0.05"


section \<open>Facts about the repository\<close>

declare getReturns_loop.simps [simp del]

lemma find_repo_update:
  assumes "\<And>h. h_id (f h) = h_id h"
  shows "find (\<lambda>h. h_id h = i) (repo_update i f now rows) =
     map_option (\<lambda>h. (f h)\<lparr>h_testedAt := now\<rparr>) (find (\<lambda>h. h_id h = i) rows)"
  using assms by (induction rows) (simp_all add: repo_update_def)

lemma length_repo_update: "length (repo_update i f now rows) = length rows"
  by (simp add: repo_update_def)

lemma repo_update_row:
  assumes "h' \<in> set (repo_update i f now rows)"
  shows "\<exists>h \<in> set rows. h' = (if h_id h = i then (f h)\<lparr>h_testedAt := now\<rparr> else h)"
proof -
  from assms have "h' \<in> (\<lambda>h. if h_id h = i then (f h)\<lparr>h_testedAt := now\<rparr> else h) ` set rows"
    unfolding repo_update_def set_map .
  then show ?thesis by (rule imageE) (rule bexI)
qed

lemma markFailed_repo:
  "hypothesesRepository (snd (markFailed i msg now s)) =
     repo_update i (\<lambda>h. h\<lparr>h_status := FAILED, h_errorMessage := Some msg\<rparr>) now
       (hypothesesRepository s)"
  by (simp add: markFailed_def emit_def Let_def)

lemma findPending_sorted: "sorted (map h_createdAt (findPending s))"
  by (simp add: findPending_def)

lemma findPending_set:
  "set (findPending s) = {h \<in> set (hypothesesRepository s). h_status h = PENDING}"
  by (auto simp: findPending_def)

section \<open>Facts about the retry loop\<close>







section \<open>Facts about the returns loop\<close>

lemma consecutivePairs_nth:
  assumes "1 \<le> i" "i < length prices"
  shows "consecutivePairs prices ! (i - 1) = (prices ! (i - 1), prices ! i)"
  using assms by (simp add: consecutivePairs_def nth_tl)

lemma length_consecutivePairs: "length (consecutivePairs prices) = length prices - 1"
  by (simp add: consecutivePairs_def)

text \<open>The loop invariant: from index \<open>i\<close> on, the loop appends the returns of the pairs
  \<open>(prices[i - 1], prices[i]), ...\<close> whose earlier price is positive.\<close>

lemma getReturns_loop_eq:
  assumes "1 \<le> i"
  shows "getReturns_loop prices i returns =
           returns @ map simpleReturn
             (filter (\<lambda>pc. 0 < pp_price (fst pc)) (drop (i - 1) (consecutivePairs prices)))"
  using assms
proof (induction prices i returns rule: getReturns_loop.induct)
  case (1 prices i returns)
  show ?case
  proof (cases "i < length prices")
    case False
    then show ?thesis
      by (subst getReturns_loop.simps) (simp add: length_consecutivePairs)
  next
    case True
    define acc where "acc =
      (if pp_price (prices ! (i - 1)) > 0
       then returns @ [\<lparr>rp_timestamp = pp_timestamp (prices ! i),
                        rp_return = (pp_price (prices ! i) - pp_price (prices ! (i - 1)))
                                      / pp_price (prices ! (i - 1))\<rparr>]
       else returns)"
    have lt: "i - 1 < length (consecutivePairs prices)"
      using True "1.prems" by (simp add: length_consecutivePairs)
    have "drop (i - 1) (consecutivePairs prices) =
        consecutivePairs prices ! (i - 1) # drop (Suc (i - 1)) (consecutivePairs prices)"
      using Cons_nth_drop_Suc[OF lt] by simp
    moreover have "Suc (i - 1) = i" using "1.prems" by simp
    ultimately have dr: "drop (i - 1) (consecutivePairs prices) =
        (prices ! (i - 1), prices ! i) # drop i (consecutivePairs prices)"
      using consecutivePairs_nth[OF "1.prems" True] by simp
    have "getReturns_loop prices i returns = getReturns_loop prices (i + 1) acc"
      by (subst getReturns_loop.simps) (simp add: True Let_def acc_def)
    also have "\<dots> = acc @ map simpleReturn
        (filter (\<lambda>pc. 0 < pp_price (fst pc)) (drop i (consecutivePairs prices)))"
      using "1.IH"[OF True refl refl] by (simp add: acc_def)
    also have "\<dots> = returns @ map simpleReturn
        (filter (\<lambda>pc. 0 < pp_price (fst pc)) (drop (i - 1) (consecutivePairs prices)))"
      unfolding dr by (simp add: acc_def simpleReturn_def)
    finally show ?thesis .
  qed
qed

lemma returnsOf_eq:
  "returnsOf prices =
     map simpleReturn (filter (\<lambda>pc. 0 < pp_price (fst pc)) (consecutivePairs prices))"
  by (simp add: returnsOf_def getReturns_loop_eq)

section \<open>Facts about the event time series\<close>

lemma getEventTimeSeries_in_range:
  "\<forall>p \<in> set (getEventTimeSeries source eventType startDate endDate rows).
      startDate \<le> sp_timestamp p \<and> sp_timestamp p \<le> endDate"
  by (auto simp: getEventTimeSeries_def Let_def)

lemma getEventTimeSeries_sorted:
  "sorted (map sp_timestamp (getEventTimeSeries source eventType startDate endDate rows))"
  by (simp add: getEventTimeSeries_def Let_def comp_def sorted_filter)

lemma valueOrOne_cases:
  "valueOrOne None = 1" "v \<noteq> 0 \<Longrightarrow> valueOrOne (Some v) = v" "valueOrOne (Some 0) = 1"
  by (simp_all add: valueOrOne_def)

section \<open>The claims\<close>

subsection \<open>C1: the Bonferroni correction\<close>

text \<open>
  C1. The correction returns \<open>adjustedPValue = min 1 (pValue * populationSize)\<close>, and
  \<open>isSignificant\<close> holds exactly when \<open>adjustedPValue < familyWiseAlpha\<close>, which is
  0.05 by default. Hence, for every p-value in \<open>[0, 1]\<close> and every population size (a
  count that includes the hypothesis under evaluation, so at least 1),
  \<open>adjustedPValue \<ge> pValue\<close>; and \<open>adjustedPValue = 1\<close> whenever
  \<open>pValue * populationSize \<ge> 1\<close>.
\<close>

theorem correct_bonferroni:
  "adjustedPValue (correct pValue populationSize familyWiseAlpha) =
     min 1 (pValue * real populationSize) \<and>
   isSignificant (correct pValue populationSize familyWiseAlpha) =
     (adjustedPValue (correct pValue populationSize familyWiseAlpha) < familyWiseAlpha) \<and>
   correct_default pValue populationSize = correct pValue populationSize 0.05 \<and>
   (0 \<le> pValue \<and> pValue \<le> 1 \<and> 1 \<le> populationSize \<longrightarrow>
      pValue \<le> adjustedPValue (correct pValue populationSize familyWiseAlpha)) \<and>
   (1 \<le> pValue * real populationSize \<longrightarrow>
      adjustedPValue (correct pValue populationSize familyWiseAlpha) = 1)"
proof (intro conjI impI)
  show "adjustedPValue (correct pValue populationSize familyWiseAlpha) =
      min 1 (pValue * real populationSize)"
    by (simp add: correct_def Let_def)
  show "isSignificant (correct pValue populationSize familyWiseAlpha) =
      (adjustedPValue (correct pValue populationSize familyWiseAlpha) < familyWiseAlpha)"
    by (simp add: correct_def Let_def)
  show "correct_default pValue populationSize = correct pValue populationSize 0.05"
    by (simp add: correct_default_def)
  show "pValue \<le> adjustedPValue (correct pValue populationSize familyWiseAlpha)"
    if "0 \<le> pValue \<and> pValue \<le> 1 \<and> 1 \<le> populationSize"
  proof -
    have "pValue * 1 \<le> pValue * real populationSize"
      using that by (intro mult_left_mono) simp_all
    then show ?thesis using that by (simp add: correct_def Let_def)
  qed
  show "adjustedPValue (correct pValue populationSize familyWiseAlpha) = 1"
    if "1 \<le> pValue * real populationSize"
    using that by (simp add: correct_def Let_def)
qed

theorem correct_bonferroni_witness:
  "adjustedPValue (correct_default (1/1000) 100) = 1/10 \<and>
   \<not> isSignificant (correct_default (1/1000) 100) \<and>
   (1/1000 :: real) \<le> adjustedPValue (correct_default (1/1000) 100) \<and>
   adjustedPValue (correct_default (1/2) 7) = 1"
proof -
  note t = correct_bonferroni[of "1/1000" 100 "0.05"]
  note u = correct_bonferroni[of "1/2" 7 "0.05"]
  have d: "correct_default (1/1000) 100 = correct (1/1000) 100 0.05"
    "correct_default (1/2) 7 = correct (1/2) 7 0.05"
    using t u by blast+
  have h: "(0::real) \<le> 1/1000 \<and> (1/1000::real) \<le> 1 \<and> (1::nat) \<le> 100" by simp
  have g: "(1::real) \<le> 1/2 * real (7::nat)" by simp
  have a: "adjustedPValue (correct (1/1000) 100 0.05) = 1/10"
    using t[THEN conjunct1] by simp
  have b: "\<not> isSignificant (correct (1/1000) 100 0.05)"
    using t[THEN conjunct2, THEN conjunct1] a by simp
  note c = t[THEN conjunct2, THEN conjunct2, THEN conjunct2, THEN conjunct1, THEN mp, OF h]
  note e = u[THEN conjunct2, THEN conjunct2, THEN conjunct2, THEN conjunct2, THEN mp, OF g]
  show ?thesis unfolding d by (intro conjI) (rule a, rule b, rule c, rule e)
qed

subsection \<open>C2: when a Relationship is created\<close>

text \<open>
  C2, as amended. \<^verbatim>\<open>RelationshipsService.create\<close> applies no significance test: given the
  required columns it stores the Relationship whatever its p-value and its
  \<^verbatim>\<open>isSignificant\<close> flag (which is true when omitted) and emits one
  \<^verbatim>\<open>RELATIONSHIP_DISCOVERED\<close> signal. \<^verbatim>\<open>updateResults\<close>, for every completed evaluation
  whatever its p-value, adds no row and emits one \<^verbatim>\<open>HYPOTHESIS_TESTED\<close> signal.
\<close>

theorem create_unconditional:
  assumes "p_eventType data = Some et" "p_marketAsset data = Some ma" "p_hitRate data = Some hr"
    "p_edge data = Some ed" "p_pValue data = Some pv" "p_sampleSize data = Some n"
  shows "(\<exists>saved. fst (create data newId now s) = Inr saved \<and>
            relationshipsRepository (snd (create data newId now s)) =
              relationshipsRepository s @ [saved] \<and>
            r_id saved = newId \<and> r_pValue saved = pv \<and> r_hitRate saved = hr \<and>
            r_isSignificant saved = (p_isSignificant data \<noteq> Some False)) \<and>
         relEmitter (snd (create data newId now s)) =
           relEmitter s @ [RELATIONSHIP_DISCOVERED newId et ma pv hr] \<and>
         length (hypothesesRepository (snd (updateResults i results now hs))) =
           length (hypothesesRepository hs) \<and>
         eventEmitter (snd (updateResults i results now hs)) =
           eventEmitter hs @ [HYPOTHESIS_TESTED i Tested_completed
                                (Some (res_pValue results)) (Some (res_hitRate results))]"
proof (intro conjI)
  show "\<exists>saved. fst (create data newId now s) = Inr saved \<and>
            relationshipsRepository (snd (create data newId now s)) =
              relationshipsRepository s @ [saved] \<and>
            r_id saved = newId \<and> r_pValue saved = pv \<and> r_hitRate saved = hr \<and>
            r_isSignificant saved = (p_isSignificant data \<noteq> Some False)"
    using assms by (auto simp: create_def Let_def split: option.splits)
  show "relEmitter (snd (create data newId now s)) =
           relEmitter s @ [RELATIONSHIP_DISCOVERED newId et ma pv hr]"
    using assms by (simp add: create_def Let_def)
  show "length (hypothesesRepository (snd (updateResults i results now hs))) =
           length (hypothesesRepository hs)"
    by (simp add: updateResults_def emit_def Let_def length_repo_update)
  show "eventEmitter (snd (updateResults i results now hs)) =
           eventEmitter hs @ [HYPOTHESIS_TESTED i Tested_completed
                                (Some (res_pValue results)) (Some (res_hitRate results))]"
    by (simp add: updateResults_def emit_def Let_def)
qed

theorem create_unconditional_witness:
  "map r_isSignificant (relationshipsRepository (snd (create weakFinding ''r1'' 50 relSvc0))) = [False] \<and>
   relEmitter (snd (create weakFinding ''r1'' 50 relSvc0)) =
     [RELATIONSHIP_DISCOVERED ''r1'' ''vix_spike'' ''SPY'' (9/10) (2/5)]"
proof -
  have h: "p_eventType weakFinding = Some ''vix_spike''" "p_marketAsset weakFinding = Some ''SPY''"
    "p_hitRate weakFinding = Some (2/5)" "p_edge weakFinding = Some 3"
    "p_pValue weakFinding = Some (9/10)" "p_sampleSize weakFinding = Some 12"
    by (simp_all add: weakFinding_def)
  have f: "p_isSignificant weakFinding = Some False" "relationshipsRepository relSvc0 = []"
    "relEmitter relSvc0 = []"
    by (simp_all add: weakFinding_def relSvc0_def)
  note t = create_unconditional[OF h, where newId = "''r1''" and now = 50 and s = relSvc0
      and i = "''h1''" and results = secondResults and hs = svc0]
  from t obtain saved where
    "relationshipsRepository (snd (create weakFinding ''r1'' 50 relSvc0)) =
       relationshipsRepository relSvc0 @ [saved]"
    "r_isSignificant saved = (p_isSignificant weakFinding \<noteq> Some False)"
    by blast
  moreover from t have "relEmitter (snd (create weakFinding ''r1'' 50 relSvc0)) =
      relEmitter relSvc0 @ [RELATIONSHIP_DISCOVERED ''r1'' ''vix_spike'' ''SPY'' (9/10) (2/5)]"
    by blast
  ultimately show ?thesis by (simp add: f)
qed

theorem create_not_significant_counterexample:
  "map r_isSignificant (relationshipsRepository (snd (create weakFinding ''r1'' 50 relSvc0))) = [False] \<and>
   map r_pValue (relationshipsRepository (snd (create weakFinding ''r1'' 50 relSvc0))) = [9/10] \<and>
   relEmitter (snd (create weakFinding ''r1'' 50 relSvc0)) =
     [RELATIONSHIP_DISCOVERED ''r1'' ''vix_spike'' ''SPY'' (9/10) (2/5)] \<and>
   eventEmitter (snd (updateResults ''h1'' secondResults 30 svc0)) =
     [HYPOTHESIS_TESTED ''h1'' Tested_completed (Some (1/2)) (Some (1/2))]"
  by (simp add: create_def weakFinding_def relSvc0_def updateResults_def emit_def Let_def
        secondResults_def svc0_def)

subsection \<open>C3: queueing a hypothesis that is already running\<close>

text \<open>
  C3, as amended. \<^verbatim>\<open>queueForTesting\<close> has no in-flight guard: for an unknown id it returns
  null, changes nothing and emits nothing; for every existing hypothesis, whatever its
  current status (Running included), each call sets the status to Running and emits one
  \<^verbatim>\<open>ANALYSIS_REQUESTED\<close> signal, so every call starts a run.
\<close>

theorem queueForTesting_unguarded:
  "(findOne i s = None \<longrightarrow> queueForTesting i now s = (None, s)) \<and>
   (\<forall>h. findOne i s = Some h \<longrightarrow>
      map_option h_status (fst (queueForTesting i now s)) = Some RUNNING \<and>
      findOne i (snd (queueForTesting i now s)) = fst (queueForTesting i now s) \<and>
      eventEmitter (snd (queueForTesting i now s)) =
        eventEmitter s @ [ANALYSIS_REQUESTED i (h_eventType h) (h_marketAsset h) (h_testType h)])"
  by (auto simp: queueForTesting_def findOne_def emit_def Let_def find_repo_update)

theorem queueForTesting_unguarded_witness:
  "queueForTesting ''h9'' 20 svc0 = (None, svc0) \<and>
   map_option h_status (fst (queueForTesting ''h1'' 20 svc0)) = Some RUNNING \<and>
   eventEmitter (snd (queueForTesting ''h1'' 20 svc0)) =
     [ANALYSIS_REQUESTED ''h1'' ''vix_spike'' ''SPY'' GRANGER_CAUSALITY]"
proof -
  have a: "findOne ''h9'' svc0 = None" and b: "findOne ''h1'' svc0 = Some hyp0"
    by (simp_all add: findOne_def svc0_def hyp0_def)
  have c: "eventEmitter svc0 = []" "h_eventType hyp0 = ''vix_spike''" "h_marketAsset hyp0 = ''SPY''"
    "h_testType hyp0 = GRANGER_CAUSALITY"
    by (simp_all add: svc0_def hyp0_def)
  from queueForTesting_unguarded[of "''h9''" svc0 20] a
  have "queueForTesting ''h9'' 20 svc0 = (None, svc0)" by blast
  moreover from queueForTesting_unguarded[of "''h1''" svc0 20] b
  have "map_option h_status (fst (queueForTesting ''h1'' 20 svc0)) = Some RUNNING \<and>
      eventEmitter (snd (queueForTesting ''h1'' 20 svc0)) =
        eventEmitter svc0 @ [ANALYSIS_REQUESTED ''h1'' (h_eventType hyp0) (h_marketAsset hyp0)
                               (h_testType hyp0)]"
    by blast
  ultimately show ?thesis by (simp add: c)
qed

theorem queueForTesting_twice_counterexample:
  "map_option h_status (fst (queueForTesting ''h1'' 20 svc0)) = Some RUNNING \<and>
   map_option h_status
     (fst (queueForTesting ''h1'' 30 (snd (queueForTesting ''h1'' 20 svc0)))) = Some RUNNING \<and>
   eventEmitter (snd (queueForTesting ''h1'' 30 (snd (queueForTesting ''h1'' 20 svc0)))) =
     [ANALYSIS_REQUESTED ''h1'' ''vix_spike'' ''SPY'' GRANGER_CAUSALITY,
      ANALYSIS_REQUESTED ''h1'' ''vix_spike'' ''SPY'' GRANGER_CAUSALITY]"
  by (simp add: queueForTesting_def findOne_def emit_def Let_def repo_update_def svc0_def hyp0_def)

subsection \<open>C4: recording a result twice\<close>

text \<open>
  C4, as amended. The result (\<^verbatim>\<open>pValue\<close>, \<^verbatim>\<open>hitRate\<close>, \<^verbatim>\<open>edge\<close>, \<^verbatim>\<open>sampleSize\<close>,
  \<^verbatim>\<open>testResults\<close>, \<^verbatim>\<open>testedAt\<close>) is stored on the hypothesis row itself and
  \<^verbatim>\<open>updateResults\<close> overwrites it in place: it adds no row, every row with the given id
  gets status Completed and the new result (its \<^verbatim>\<open>testResults\<close> is kept when the new
  result has none), and every other row is unchanged.
\<close>

theorem updateResults_overwrites:
  "length (hypothesesRepository (snd (updateResults i results now s))) =
     length (hypothesesRepository s) \<and>
   (\<forall>k < length (hypothesesRepository s).
      hypothesesRepository (snd (updateResults i results now s)) ! k =
        (if h_id (hypothesesRepository s ! k) = i
         then (hypothesesRepository s ! k)
                \<lparr>h_status := COMPLETED,
                 h_pValue := Some (res_pValue results),
                 h_hitRate := Some (res_hitRate results),
                 h_edge := Some (res_edge results),
                 h_sampleSize := Some (res_sampleSize results),
                 h_testResults := (case res_testResults results of
                                     None \<Rightarrow> h_testResults (hypothesesRepository s ! k)
                                   | Some t \<Rightarrow> Some t),
                 h_testedAt := now\<rparr>
         else hypothesesRepository s ! k)) \<and>
   fst (updateResults i results now s) = findOne i (snd (updateResults i results now s))"
  by (simp add: updateResults_def emit_def Let_def repo_update_def)

theorem updateResults_overwrites_witness:
  "length (hypothesesRepository (snd (updateResults ''h1'' firstResults 20 svc1))) = 3 \<and>
   hypothesesRepository (snd (updateResults ''h1'' firstResults 20 svc1)) ! 0 = hypLate \<and>
   h_pValue (hypothesesRepository (snd (updateResults ''h1'' firstResults 20 svc1)) ! 2)
     = Some (1/100) \<and>
   h_status (hypothesesRepository (snd (updateResults ''h1'' firstResults 20 svc1)) ! 2)
     = COMPLETED"
proof -
  have len: "length (hypothesesRepository svc1) = 3"
    by (simp add: svc1_def)
  have k0: "0 < length (hypothesesRepository svc1)" and k2: "2 < length (hypothesesRepository svc1)"
    by (simp_all add: len)
  have r0: "hypothesesRepository svc1 ! 0 = hypLate" and r2: "hypothesesRepository svc1 ! 2 = hyp0"
    by (simp_all add: svc1_def)
  have i0: "h_id hypLate \<noteq> ''h1''" and i2: "h_id hyp0 = ''h1''"
    by (simp_all add: hypLate_def hyp0_def)
  note t = updateResults_overwrites[of "''h1''" firstResults 20 svc1]
  note tk = t[THEN conjunct2, THEN conjunct1, rule_format]
  have a: "length (hypothesesRepository (snd (updateResults ''h1'' firstResults 20 svc1))) = 3"
    using t[THEN conjunct1] len by simp
  have b: "hypothesesRepository (snd (updateResults ''h1'' firstResults 20 svc1)) ! 0 = hypLate"
    using tk[OF k0] i0 unfolding r0 by simp
  have c: "hypothesesRepository (snd (updateResults ''h1'' firstResults 20 svc1)) ! 2 =
      hyp0\<lparr>h_status := COMPLETED, h_pValue := Some (res_pValue firstResults),
           h_hitRate := Some (res_hitRate firstResults), h_edge := Some (res_edge firstResults),
           h_sampleSize := Some (res_sampleSize firstResults),
           h_testResults := (case res_testResults firstResults of
                               None \<Rightarrow> h_testResults hyp0 | Some t \<Rightarrow> Some t),
           h_testedAt := 20\<rparr>"
    using tk[OF k2] i2 unfolding r2 by simp
  have d: "res_pValue firstResults = 1/100" by (simp add: firstResults_def)
  show ?thesis unfolding c using a b by (simp add: d)
qed

theorem updateResults_overwrite_counterexample:
  "map h_pValue (hypothesesRepository (snd (updateResults ''h1'' firstResults 20 svc0)))
     = [Some (1/100)] \<and>
   map h_pValue (hypothesesRepository
      (snd (updateResults ''h1'' secondResults 30 (snd (updateResults ''h1'' firstResults 20 svc0)))))
     = [Some (1/2)] \<and>
   map h_testedAt (hypothesesRepository
      (snd (updateResults ''h1'' secondResults 30 (snd (updateResults ''h1'' firstResults 20 svc0)))))
     = [30]"
  by (simp add: updateResults_def emit_def Let_def repo_update_def svc0_def hyp0_def
        firstResults_def secondResults_def)

subsection \<open>C5: the correction is monotone in the population\<close>

text \<open>
  C5. For every fixed p-value (a probability, so not negative) and all population sizes
  \<open>n1 \<le> n2\<close>, the adjusted p-value computed with \<open>n1\<close> is at most the one computed
  with \<open>n2\<close>.
\<close>

theorem correct_monotone:
  assumes "0 \<le> pValue" "n1 \<le> n2"
  shows "adjustedPValue (correct pValue n1 familyWiseAlpha) \<le>
         adjustedPValue (correct pValue n2 familyWiseAlpha)"
proof -
  have "pValue * real n1 \<le> pValue * real n2"
    using assms by (intro mult_left_mono) simp_all
  then show ?thesis by (simp add: correct_def Let_def min_def)
qed

theorem correct_monotone_witness:
  "adjustedPValue (correct (1/1000) 10 (1/20)) \<le> adjustedPValue (correct (1/1000) 200 (1/20)) \<and>
   adjustedPValue (correct (1/1000) 10 (1/20)) = 1/100 \<and>
   adjustedPValue (correct (1/1000) 200 (1/20)) = 1/5"
proof -
  have h: "(0::real) \<le> 1/1000" "(10::nat) \<le> 200" by simp_all
  from correct_monotone[OF h, of "1/20"] show ?thesis
    by (simp add: correct_def Let_def)
qed

subsection \<open>C6: a failure is recorded with its reason\<close>

text \<open>
  C6. For every hypothesis id and every error message, \<^verbatim>\<open>markFailed\<close> sets the status of
  the hypothesis to Failed and stores an \<^verbatim>\<open>errorMessage\<close> equal to the given message; the
  row it returns is the stored one, and the failure is signalled
  (\<^verbatim>\<open>HYPOTHESIS_TESTED\<close> with status failed).
\<close>

theorem markFailed_records_reason:
  "eventEmitter (snd (markFailed i msg now s)) =
     eventEmitter s @ [HYPOTHESIS_TESTED i Tested_failed None None] \<and>
   fst (markFailed i msg now s) = findOne i (snd (markFailed i msg now s)) \<and>
   (\<forall>h' \<in> set (hypothesesRepository (snd (markFailed i msg now s))).
      h_id h' = i \<longrightarrow> h_status h' = FAILED \<and> h_errorMessage h' = Some msg) \<and>
   (findOne i s \<noteq> None \<longrightarrow>
      map_option h_status (fst (markFailed i msg now s)) = Some FAILED \<and>
      map_option h_errorMessage (fst (markFailed i msg now s)) = Some (Some msg))"
proof (intro conjI ballI impI)
  show "eventEmitter (snd (markFailed i msg now s)) =
     eventEmitter s @ [HYPOTHESIS_TESTED i Tested_failed None None]"
    by (simp add: markFailed_def emit_def Let_def)
  show "fst (markFailed i msg now s) = findOne i (snd (markFailed i msg now s))"
    by (simp add: markFailed_def Let_def)
next
  fix h'
  assume mem: "h' \<in> set (hypothesesRepository (snd (markFailed i msg now s)))"
    and hid: "h_id h' = i"
  from mem obtain h where
    h: "h' = (if h_id h = i
              then h\<lparr>h_status := FAILED, h_errorMessage := Some msg, h_testedAt := now\<rparr>
              else h)"
    unfolding markFailed_repo by (blast dest: repo_update_row)
  have "h_id h = i"
  proof (rule ccontr)
    assume "h_id h \<noteq> i"
    with h have "h' = h" by simp
    with hid \<open>h_id h \<noteq> i\<close> show False by simp
  qed
  with h have eq: "h' = h\<lparr>h_status := FAILED, h_errorMessage := Some msg, h_testedAt := now\<rparr>"
    by simp
  show "h_status h' = FAILED" unfolding eq by simp
  show "h_errorMessage h' = Some msg" unfolding eq by simp
next
  assume "findOne i s \<noteq> None"
  then obtain h where h: "find (\<lambda>h. h_id h = i) (hypothesesRepository s) = Some h"
    unfolding findOne_def by blast
  have "find (\<lambda>h. h_id h = i)
          (repo_update i (\<lambda>h. h\<lparr>h_status := FAILED, h_errorMessage := Some msg\<rparr>) now
             (hypothesesRepository s)) =
        Some (h\<lparr>h_status := FAILED, h_errorMessage := Some msg, h_testedAt := now\<rparr>)"
    by (subst find_repo_update) (simp_all add: h)
  then have eq: "fst (markFailed i msg now s) =
      Some (h\<lparr>h_status := FAILED, h_errorMessage := Some msg, h_testedAt := now\<rparr>)"
    by (simp add: markFailed_def findOne_def emit_def Let_def)
  show "map_option h_status (fst (markFailed i msg now s)) = Some FAILED"
    unfolding eq by simp
  show "map_option h_errorMessage (fst (markFailed i msg now s)) = Some (Some msg)"
    unfolding eq by simp
qed

theorem markFailed_records_reason_witness:
  "map_option h_status (fst (markFailed ''h1'' ''singular matrix in Granger fit'' 20 svc0))
     = Some FAILED \<and>
   map_option h_errorMessage (fst (markFailed ''h1'' ''singular matrix in Granger fit'' 20 svc0))
     = Some (Some ''singular matrix in Granger fit'') \<and>
   eventEmitter (snd (markFailed ''h1'' ''singular matrix in Granger fit'' 20 svc0)) =
     [HYPOTHESIS_TESTED ''h1'' Tested_failed None None]"
proof -
  have h: "findOne ''h1'' svc0 \<noteq> None"
    by (simp add: findOne_def svc0_def hyp0_def)
  have e: "eventEmitter svc0 = []"
    by (simp add: svc0_def)
  note t = markFailed_records_reason[of "''h1''" "''singular matrix in Granger fit''" 20 svc0]
  note a = t[THEN conjunct2, THEN conjunct2, THEN conjunct2, THEN mp, OF h]
  note b = t[THEN conjunct1, unfolded e append_Nil]
  show ?thesis
    by (intro conjI) (rule a[THEN conjunct1], rule a[THEN conjunct2], rule b)
qed

subsection \<open>C7: retrying a fetch\<close>



subsection \<open>C8: the pending queue\<close>

text \<open>
  C8. \<^verbatim>\<open>findPending\<close> returns exactly the hypotheses whose status is Pending (each as often
  as it is stored), in ascending order of \<^verbatim>\<open>createdAt\<close>, so of any two pending hypotheses
  the one created strictly earlier stands first.
\<close>

theorem findPending_fifo:
  "mset (findPending s) =
     filter_mset (\<lambda>h. h_status h = PENDING) (mset (hypothesesRepository s)) \<and>
   sorted (map h_createdAt (findPending s)) \<and>
   (\<forall>a \<in> set (hypothesesRepository s). \<forall>b \<in> set (hypothesesRepository s).
      h_status a = PENDING \<and> h_status b = PENDING \<and> h_createdAt a < h_createdAt b \<longrightarrow>
      (\<exists>i j. i < j \<and> j < length (findPending s) \<and>
             findPending s ! i = a \<and> findPending s ! j = b))"
proof (intro conjI ballI impI)
  show "mset (findPending s) =
     filter_mset (\<lambda>h. h_status h = PENDING) (mset (hypothesesRepository s))"
    by (simp add: findPending_def)
  show "sorted (map h_createdAt (findPending s))"
    by (rule findPending_sorted)
next
  fix a b
  assume mem: "a \<in> set (hypothesesRepository s)" "b \<in> set (hypothesesRepository s)"
    and ab: "h_status a = PENDING \<and> h_status b = PENDING \<and> h_createdAt a < h_createdAt b"
  let ?r = "findPending s"
  have "a \<in> set ?r" "b \<in> set ?r"
    using mem ab unfolding findPending_set by blast+
  then obtain i j where i: "i < length ?r" "?r ! i = a" and j: "j < length ?r" "?r ! j = b"
    unfolding in_set_conv_nth by blast
  have "i < j"
  proof (rule ccontr)
    assume "\<not> i < j"
    then have "j \<le> i" by simp
    then have "map h_createdAt ?r ! j \<le> map h_createdAt ?r ! i"
      using findPending_sorted[of s] i by (intro sorted_nth_mono) simp_all
    then have "h_createdAt b \<le> h_createdAt a"
      using i j by simp
    with ab show False by simp
  qed
  with i j show "\<exists>i j. i < j \<and> j < length ?r \<and> ?r ! i = a \<and> ?r ! j = b"
    by blast
qed

theorem findPending_fifo_witness:
  "map h_id (findPending svc1) = [''h1'', ''h2''] \<and>
   sorted (map h_createdAt (findPending svc1)) \<and>
   (\<exists>i j. i < j \<and> j < length (findPending svc1) \<and>
          findPending svc1 ! i = hyp0 \<and> findPending svc1 ! j = hypLate)"
proof -
  have mem: "hyp0 \<in> set (hypothesesRepository svc1)" "hypLate \<in> set (hypothesesRepository svc1)"
    by (simp_all add: svc1_def)
  have ab: "h_status hyp0 = PENDING \<and> h_status hypLate = PENDING \<and>
      h_createdAt hyp0 < h_createdAt hypLate"
    by (simp add: hyp0_def hypLate_def)
  note t = findPending_fifo[of svc1]
  have ids: "map h_id (findPending svc1) = [''h1'', ''h2'']"
    by (simp add: findPending_def svc1_def hypLate_def hypDone_def hyp0_def)
  show ?thesis
    by (intro conjI)
      (rule ids, rule t[THEN conjunct2, THEN conjunct1],
       rule t[THEN conjunct2, THEN conjunct2, rule_format, OF mem ab])
qed

subsection \<open>C9: returns from a price series\<close>

text \<open>
  C9, as amended. For every price series, \<^verbatim>\<open>getReturns\<close> emits, in order, one simple return
  \<open>(currentPrice - previousPrice) / previousPrice\<close> tagged with the later timestamp for
  each consecutive pair whose earlier price is strictly positive, and skips the pairs whose
  earlier price is zero or negative, so it never divides by a non-positive price. An empty
  series gives an empty result; for a non-empty series the result has at most one element
  less than the series.
\<close>

theorem getReturns_positive_pairs:
  "returnsOf prices =
     map simpleReturn (filter (\<lambda>pc. 0 < pp_price (fst pc)) (consecutivePairs prices)) \<and>
   (\<forall>r \<in> set (returnsOf prices).
      \<exists>pc \<in> set (consecutivePairs prices). 0 < pp_price (fst pc) \<and> r = simpleReturn pc) \<and>
   (prices = [] \<longrightarrow> returnsOf prices = []) \<and>
   (prices \<noteq> [] \<longrightarrow> int (length (returnsOf prices)) \<le> int (length prices) - 1) \<and>
   getReturns asset startDate endDate rows =
     returnsOf (getPriceTimeSeries asset startDate endDate rows)"
proof (intro conjI impI)
  show "returnsOf prices =
     map simpleReturn (filter (\<lambda>pc. 0 < pp_price (fst pc)) (consecutivePairs prices))"
    by (rule returnsOf_eq)
  show "\<forall>r \<in> set (returnsOf prices).
      \<exists>pc \<in> set (consecutivePairs prices). 0 < pp_price (fst pc) \<and> r = simpleReturn pc"
    unfolding returnsOf_eq by force
  show "returnsOf prices = []" if "prices = []"
    using that by (simp add: returnsOf_eq consecutivePairs_def)
  show "int (length (returnsOf prices)) \<le> int (length prices) - 1" if "prices \<noteq> []"
  proof -
    have "length (returnsOf prices) \<le> length (consecutivePairs prices)"
      by (simp add: returnsOf_eq)
    then have "length (returnsOf prices) \<le> length prices - 1"
      by (simp add: length_consecutivePairs)
    moreover have "0 < length prices" using that by simp
    ultimately show ?thesis by linarith
  qed
  show "getReturns asset startDate endDate rows =
      returnsOf (getPriceTimeSeries asset startDate endDate rows)"
    by (simp add: getReturns_def)
qed

theorem getReturns_positive_pairs_witness:
  "returnsOf examplePrices =
     [\<lparr>rp_timestamp = 2, rp_return = - 1\<rparr>, \<lparr>rp_timestamp = 4, rp_return = 1/10\<rparr>] \<and>
   int (length (returnsOf examplePrices)) \<le> int (length examplePrices) - 1"
proof -
  have ne: "examplePrices \<noteq> []" by (simp add: examplePrices_def)
  note t = getReturns_positive_pairs[of examplePrices]
  have "map simpleReturn
          (filter (\<lambda>pc. 0 < pp_price (fst pc)) (consecutivePairs examplePrices)) =
        [\<lparr>rp_timestamp = 2, rp_return = - 1\<rparr>, \<lparr>rp_timestamp = 4, rp_return = 1/10\<rparr>]"
    by (simp add: examplePrices_def consecutivePairs_def simpleReturn_def)
  then have a: "returnsOf examplePrices =
      [\<lparr>rp_timestamp = 2, rp_return = - 1\<rparr>, \<lparr>rp_timestamp = 4, rp_return = 1/10\<rparr>]"
    using t[THEN conjunct1] by simp
  note b = t[THEN conjunct2, THEN conjunct2, THEN conjunct2, THEN conjunct1, THEN mp, OF ne]
  show ?thesis by (intro conjI) (rule a, rule b)
qed

theorem getReturns_length_counterexample:
  "\<not> int (length (returnsOf [])) \<le> int (length ([] :: PricePoint list)) - 1"
  by (simp add: returnsOf_eq consecutivePairs_def)

subsection \<open>C10: the event time series\<close>



end
